theory Spec2Isabelle
  imports Complex_Main "HOL-Library.AList"
begin

section \<open>The page-enhancement script: a shallow embedding\<close>

text \<open>
  The source file \<^verbatim>\<open>script.js\<close> holds two versions of one script, one after the other.
  Both are embedded; where a function has the same text in both versions it is embedded
  once, and where the texts differ the definitions carry the suffix 1 (first version) or
  2 (second version).

  JavaScript numbers read from the layout (\<^verbatim>\<open>window.scrollY\<close>,
  \<^verbatim>\<open>window.innerHeight\<close>, \<^verbatim>\<open>getBoundingClientRect().top\<close>) are
  modelled as real numbers: the script only compares them with small integer constants.
\<close>

subsection \<open>The document\<close>

text \<open>
  The document is the list of its elements in document order; an element is named by its
  position in the list. \<open>parentNode\<close> is the position of the parent element. The class
  attribute is the list of class tokens (a \<^verbatim>\<open>DOMTokenList\<close>); \<open>attributes\<close> holds
  the other attributes.
\<close>

record element =
  localName :: string
  attributes :: "(string \<times> string) list"
  classList :: "string list"
  parentNode :: "nat option"

definition getAttribute :: "element \<Rightarrow> string \<Rightarrow> string option" where
  "getAttribute e a = map_of (attributes e) a"

definition contains :: "string \<Rightarrow> element \<Rightarrow> bool" where
  \<comment> \<open>\<^verbatim>\<open>e.classList.contains(c)\<close>\<close>
  "contains c e = (c \<in> set (classList e))"

definition add_token :: "string \<Rightarrow> string list \<Rightarrow> string list" where
  "add_token c cs = (if c \<in> set cs then cs else cs @ [c])"

definition remove_token :: "string \<Rightarrow> string list \<Rightarrow> string list" where
  "remove_token c cs = filter (\<lambda>x. x \<noteq> c) cs"

definition toggle_token :: "string \<Rightarrow> string list \<Rightarrow> string list" where
  "toggle_token c cs = (if c \<in> set cs then remove_token c cs else cs @ [c])"

definition add_tokens :: "string list \<Rightarrow> string list \<Rightarrow> string list" where
  \<comment> \<open>\<^verbatim>\<open>classList.add(c1, c2, ...)\<close> adds the tokens from left to right\<close>
  "add_tokens ts cs = foldl (\<lambda>acc c. add_token c acc) cs ts"

definition remove_tokens :: "string list \<Rightarrow> string list \<Rightarrow> string list" where
  "remove_tokens ts cs = foldl (\<lambda>acc c. remove_token c acc) cs ts"

subsection \<open>Errors, callbacks and the page state\<close>

datatype js_error = TypeError string | ReferenceError string

datatype log_entry = Log string | Error string js_error

datatype readiness = Loading | Interactive | Complete

text \<open>Callbacks handed to \<^verbatim>\<open>requestAnimationFrame\<close> by the scroll throttle.\<close>

datatype callback = UpdateHeader

text \<open>
  Closures handed to \<^verbatim>\<open>setTimeout\<close>: the class additions set up by the section
  highlighting of the first version (element, tokens), the release of the back-to-top
  throttle, and the two steps that hide and remove the page loader.
\<close>

datatype timeout_action =
    AddClasses nat "string list"
  | ReleaseThrottle
  | HideLoader nat
  | RemoveLoader nat

text \<open>Event listeners are recorded by target, event type and a tag naming the closure.\<close>

datatype event_target = Window | Document | Node nat

datatype handler =
    KeyboardHandler
  | LoaderOnLoad nat
  | TrackClick nat
  | GlobalError
  | UnhandledRejection
  | ToggleMenu
  | CloseMenuOnLink
  | OnScroll
  | BackToTopOnScroll
  | BackToTopClick
  | SmoothScrollClick nat
  | EscapeClosesMenu
  | AriaExpandedOnClick
  | LogError
  | HideBrokenImage nat
  | TikTokError
  | LoadTime
  | RevealOnScroll
  | InitMobileMenu
  | InitMobileMenuClose
  | InitializeApp
  | InView
  | LazyImage
  | TrackSection

record page =
  elems :: "element list"
  readyState :: readiness
  scrollY :: real
  innerHeight :: real
  rectTop :: "nat \<Rightarrow> real"
  navToggle :: "nat option"
  navMenu :: "nat option"
  navLinks :: "nat list"
  header :: "nat option"
  backToTopButton :: "nat option"
  ticking :: bool
  lastScrollY :: real
  inThrottle :: bool
  raf :: "callback list"
  timers :: "(nat \<times> timeout_action) list"
  listeners :: "(event_target \<times> string \<times> handler) list"
  observed :: "(nat \<times> handler) list"
  console :: "log_entry list"

text \<open>
  \<open>rectTop p i\<close> is \<^verbatim>\<open>getBoundingClientRect().top\<close> of element \<open>i\<close> in the current
  layout, and \<open>scrollY\<close> is both \<^verbatim>\<open>window.scrollY\<close> and its alias
  \<^verbatim>\<open>window.pageYOffset\<close>. A statement either completes or throws; either way the
  mutations made so far stay.
\<close>

datatype outcome = Normal page | Throw js_error page

definition and_then :: "outcome \<Rightarrow> (page \<Rightarrow> outcome) \<Rightarrow> outcome" where
  "and_then r f = (case r of Normal p \<Rightarrow> f p | Throw e p \<Rightarrow> Throw e p)"

definition run_steps :: "(page \<Rightarrow> outcome) list \<Rightarrow> page \<Rightarrow> outcome" where
  \<comment> \<open>statements in sequence: the first one that throws ends the sequence\<close>
  "run_steps fs p = foldl and_then (Normal p) fs"

definition update_classes :: "nat \<Rightarrow> (string list \<Rightarrow> string list) \<Rightarrow> page \<Rightarrow> page" where
  "update_classes i f p =
     p\<lparr>elems := (elems p)[i := (elems p ! i)\<lparr>classList := f (classList (elems p ! i))\<rparr>]\<rparr>"

definition classList_add :: "nat \<Rightarrow> string list \<Rightarrow> page \<Rightarrow> page" where
  "classList_add i ts p = update_classes i (add_tokens ts) p"

definition classList_remove :: "nat \<Rightarrow> string list \<Rightarrow> page \<Rightarrow> page" where
  "classList_remove i ts p = update_classes i (remove_tokens ts) p"

definition classList_toggle :: "nat \<Rightarrow> string \<Rightarrow> page \<Rightarrow> page" where
  "classList_toggle i c p = update_classes i (toggle_token c) p"

definition has_class :: "page \<Rightarrow> nat \<Rightarrow> string \<Rightarrow> bool" where
  "has_class p i c = (i < length (elems p) \<and> contains c (elems p ! i))"

definition addEventListener :: "event_target \<Rightarrow> string \<Rightarrow> handler \<Rightarrow> page \<Rightarrow> page" where
  "addEventListener t ev h p = p\<lparr>listeners := listeners p @ [(t, ev, h)]\<rparr>"

definition requestAnimationFrame :: "callback \<Rightarrow> page \<Rightarrow> page" where
  "requestAnimationFrame cb p = p\<lparr>raf := raf p @ [cb]\<rparr>"

definition setTimeout :: "timeout_action \<Rightarrow> nat \<Rightarrow> page \<Rightarrow> page" where
  "setTimeout a ms p = p\<lparr>timers := timers p @ [(ms, a)]\<rparr>"

subsection \<open>Header scroll effect and its throttle\<close>

text \<open>
  \<^verbatim>\<open>updateHeader\<close> and \<^verbatim>\<open>onScroll\<close> have the same text in both versions.
\<close>

definition updateHeader :: "page \<Rightarrow> page" where
  "updateHeader p =
     (let currentScrollY = scrollY p;
          p1 = (case header p of
                  None \<Rightarrow> p
                | Some h \<Rightarrow>
                    if currentScrollY > 50 then classList_add h [''scrolled''] p
                    else classList_remove h [''scrolled''] p)
      in p1\<lparr>lastScrollY := currentScrollY, ticking := False\<rparr>)"

definition onScroll :: "page \<Rightarrow> page" where
  "onScroll p =
     (if \<not> ticking p then (requestAnimationFrame UpdateHeader p)\<lparr>ticking := True\<rparr> else p)"

fun run_callback :: "callback \<Rightarrow> page \<Rightarrow> page" where
  "run_callback UpdateHeader p = updateHeader p"

text \<open>
  A rendered frame invokes the callbacks requested since the last frame, once each and in
  the order of the requests; a request made while they run waits for the next frame.
\<close>

definition frame_callbacks :: "page \<Rightarrow> callback list" where
  "frame_callbacks p = raf p"

definition frame :: "page \<Rightarrow> page" where
  "frame p = foldl (\<lambda>q cb. run_callback cb q) (p\<lparr>raf := []\<rparr>) (frame_callbacks p)"

text \<open>
  A raw scroll event at vertical position \<open>y\<close>, as the throttle sees it: the window is at
  \<open>y\<close> and the listener \<^verbatim>\<open>onScroll\<close> runs.
\<close>

definition scroll_event :: "page \<Rightarrow> real \<Rightarrow> page" where
  "scroll_event p y = onScroll (p\<lparr>scrollY := y\<rparr>)"

definition scroll_events :: "real list \<Rightarrow> page \<Rightarrow> page" where
  "scroll_events ys p = foldl scroll_event p ys"

subsection \<open>Selectors\<close>

text \<open>
  The selectors the script uses: a selector is a comma-separated list of compound
  selectors, and a compound selector is a list of simple ones that must all match.
\<close>

datatype simple_selector =
    Tag string
  | Class string
  | HasAttr string
  | AttrPrefix string string
  | FirstChild
  | LastChild

fun matches_simple :: "element list \<Rightarrow> nat \<Rightarrow> simple_selector \<Rightarrow> bool" where
  "matches_simple d i (Tag t) = (localName (d ! i) = t)"
| "matches_simple d i (Class c) = contains c (d ! i)"
| "matches_simple d i (HasAttr a) = (getAttribute (d ! i) a \<noteq> None)"
| "matches_simple d i (AttrPrefix a v) =
     (case getAttribute (d ! i) a of None \<Rightarrow> False | Some s \<Rightarrow> take (length v) s = v)"
| "matches_simple d i FirstChild =
     list_all (\<lambda>j. parentNode (d ! j) \<noteq> parentNode (d ! i)) [0..<i]"
| "matches_simple d i LastChild =
     list_all (\<lambda>j. parentNode (d ! j) \<noteq> parentNode (d ! i)) [Suc i..<length d]"

definition matches :: "element list \<Rightarrow> nat \<Rightarrow> simple_selector list list \<Rightarrow> bool" where
  "matches d i sel = list_ex (\<lambda>compound. list_all (matches_simple d i) compound) sel"

definition querySelectorAll :: "page \<Rightarrow> simple_selector list list \<Rightarrow> nat list" where
  \<comment> \<open>\<^verbatim>\<open>document.querySelectorAll(sel)\<close>: a static list, in document order\<close>
  "querySelectorAll p sel = filter (\<lambda>i. matches (elems p) i sel) [0..<length (elems p)]"

definition querySelector :: "page \<Rightarrow> simple_selector list list \<Rightarrow> nat option" where
  "querySelector p sel = (case querySelectorAll p sel of [] \<Rightarrow> None | i # _ \<Rightarrow> Some i)"

definition getElementById :: "page \<Rightarrow> string \<Rightarrow> nat option" where
  "getElementById p s =
     (case filter (\<lambda>i. getAttribute (elems p ! i) ''id'' = Some s) [0..<length (elems p)] of
        [] \<Rightarrow> None
      | i # _ \<Rightarrow> Some i)"

text \<open>
  \<open>is_descendant d a j\<close>: element \<open>a\<close> is reached from \<open>j\<close> by following parents. The walk
  is bounded by the size of the document.
\<close>

fun reaches_parent :: "nat \<Rightarrow> element list \<Rightarrow> nat \<Rightarrow> nat \<Rightarrow> bool" where
  "reaches_parent 0 d a j = False"
| "reaches_parent (Suc n) d a j =
     (j < length d \<and>
      (case parentNode (d ! j) of
         None \<Rightarrow> False
       | Some q \<Rightarrow> q = a \<or> reaches_parent n d a q))"

definition is_descendant :: "element list \<Rightarrow> nat \<Rightarrow> nat \<Rightarrow> bool" where
  "is_descendant d a j = reaches_parent (length d) d a j"

definition querySelectorAll_in :: "page \<Rightarrow> nat \<Rightarrow> simple_selector list list \<Rightarrow> nat list" where
  \<comment> \<open>\<^verbatim>\<open>element.querySelectorAll(sel)\<close>: the matching descendants of the element\<close>
  "querySelectorAll_in p a sel =
     filter (\<lambda>i. is_descendant (elems p) a i) (querySelectorAll p sel)"

definition querySelector_in :: "page \<Rightarrow> nat \<Rightarrow> simple_selector list list \<Rightarrow> nat option" where
  "querySelector_in p a sel = (case querySelectorAll_in p a sel of [] \<Rightarrow> None | i # _ \<Rightarrow> Some i)"

definition for_each_indexed :: "(page \<Rightarrow> nat \<Rightarrow> nat \<Rightarrow> page) \<Rightarrow> nat list \<Rightarrow> page \<Rightarrow> page" where
  \<comment> \<open>\<^verbatim>\<open>list.forEach((item, index) => ...)\<close>\<close>
  "for_each_indexed f xs p = foldl (\<lambda>q (x, index). f q x index) p (zip xs [0..<length xs])"

subsection \<open>Scroll reveal\<close>

definition reveal_selector :: "simple_selector list list" where
  \<comment> \<open>\<^verbatim>\<open>'.reveal, .reveal-left, .reveal-right'\<close>\<close>
  "reveal_selector = [[Class ''reveal''], [Class ''reveal-left''], [Class ''reveal-right'']]"

definition reveal_element :: "page \<Rightarrow> nat \<Rightarrow> page" where
  \<comment> \<open>the body of \<^verbatim>\<open>revealElements.forEach\<close>, the same in both versions\<close>
  "reveal_element p element =
     (let elementTop = rectTop p element;
          windowHeight = innerHeight p
      in if elementTop < windowHeight - 100 then classList_add element [''active''] p else p)"

definition highlight_section :: "page \<Rightarrow> nat \<Rightarrow> page" where
  \<comment> \<open>the body of \<^verbatim>\<open>sections.forEach\<close> of the first version\<close>
  "highlight_section p sec =
     (let sectionTop = rectTop p sec;
          windowHeight = innerHeight p
      in if sectionTop < windowHeight - 50 \<and> sectionTop > - windowHeight / 2 then
           (let p1 = classList_add sec [''section-highlight'', ''active''] p;
                p2 = (if has_class p1 sec ''education-career''
                      then classList_add sec [''section-glow''] p1 else p1);
                groupsInSection = querySelectorAll_in p2 sec [[Class ''section-group'']];
                p3 = for_each_indexed
                       (\<lambda>q grp index. setTimeout (AddClasses grp [''active'']) (index * 200) q)
                       groupsInSection p2;
                cardsInSection =
                  querySelectorAll_in p3 sec [[Class ''degree-card''], [Class ''job-card'']];
                p4 = for_each_indexed
                       (\<lambda>q card index.
                          setTimeout (AddClasses card [''card-highlight'', ''active'']) (index * 100) q)
                       cardsInSection p3
            in (case querySelector_in p4 sec [[Class ''martial-belt-card'']] of
                  None \<Rightarrow> p4
                | Some beltCard \<Rightarrow>
                    setTimeout (AddClasses beltCard [''section-pulse'', ''active'']) 400 p4))
         else classList_remove sec [''section-highlight'', ''active'', ''section-glow''] p)"

definition revealOnScroll1 :: "page \<Rightarrow> page" where
  "revealOnScroll1 p =
     (let revealElements = querySelectorAll p reveal_selector;
          sections = querySelectorAll p [[Tag ''section'']];
          p1 = foldl reveal_element p revealElements
      in foldl highlight_section p1 sections)"

definition revealOnScroll2 :: "page \<Rightarrow> page" where
  "revealOnScroll2 p =
     (let revealElements = querySelectorAll p reveal_selector
      in foldl reveal_element p revealElements)"

text \<open>
  A change of layout (scrolling, resizing): every element gets a new top offset and the
  viewport a new height. The classes stay.
\<close>

definition relayout :: "real \<Rightarrow> (nat \<Rightarrow> real) \<Rightarrow> page \<Rightarrow> page" where
  "relayout h tops p = p\<lparr>innerHeight := h, rectTop := tops\<rparr>"

subsection \<open>Mobile menu toggle\<close>

text \<open>
  The click listener of the navigation toggle. Its statements are the same in both
  versions; the second version first calls \<^verbatim>\<open>e.preventDefault()\<close> and
  \<^verbatim>\<open>e.stopPropagation()\<close>, which change nothing of the page state. Reading a property
  of \<^verbatim>\<open>null\<close> throws a \<^verbatim>\<open>TypeError\<close>.
\<close>

definition toggleMenu :: "page \<Rightarrow> outcome" where
  "toggleMenu p =
     (case navMenu p of
        None \<Rightarrow> Throw (TypeError ''navMenu is null'') p
      | Some m \<Rightarrow>
          (let p1 = classList_toggle m ''active'' p
           in case navToggle p1 of
                None \<Rightarrow> Throw (TypeError ''navToggle is null'') p1
              | Some t \<Rightarrow>
                  (case querySelector_in p1 t [[Tag ''i'']] of
                     None \<Rightarrow> Normal p1
                   | Some icon \<Rightarrow>
                       Normal (classList_toggle icon ''fa-times''
                                 (classList_toggle icon ''fa-bars'' p1)))))"

text \<open>The first version installs the listener when the toggle exists (lines 394-405).\<close>

definition installToggle1 :: "page \<Rightarrow> page" where
  "installToggle1 p =
     (case navToggle p of
        None \<Rightarrow> p
      | Some t \<Rightarrow> addEventListener (Node t) ''click'' ToggleMenu p)"

text \<open>The second version installs it when both the toggle and the menu exist.\<close>

definition initMobileMenu :: "page \<Rightarrow> page" where
  "initMobileMenu p =
     (case (navToggle p, navMenu p) of
        (Some t, Some m) \<Rightarrow> addEventListener (Node t) ''click'' ToggleMenu p
      | _ \<Rightarrow> p)"

subsection \<open>Back-to-top button\<close>

text \<open>
  The scroll listener of the back-to-top button (the same text in both versions) and the
  closure that \<^verbatim>\<open>throttle(func, 100)\<close> wraps around it: the call goes through when
  \<^verbatim>\<open>inThrottle\<close> is not set, then the flag is set and released 100 ms later.
\<close>

definition backToTop_handler :: "page \<Rightarrow> page" where
  "backToTop_handler p =
     (case backToTopButton p of
        None \<Rightarrow> p
      | Some b \<Rightarrow>
          if scrollY p > 300 then classList_add b [''show''] p
          else classList_remove b [''show''] p)"

definition backToTop_throttled :: "page \<Rightarrow> page" where
  "backToTop_throttled p =
     (if \<not> inThrottle p
      then setTimeout ReleaseThrottle 100 ((backToTop_handler p)\<lparr>inThrottle := True\<rparr>)
      else p)"

subsection \<open>The steps of initializeApp\<close>

text \<open>
  The functions below register listeners and add classes. At this level their text is
  the same in both versions (the versions differ inside the registered closures: logging,
  the duration of the scroll animation). The inline style \<^verbatim>\<open>transitionDelay\<close> that
  \<^verbatim>\<open>initRevealAnimations\<close> sets is not part of the state.
\<close>

definition add_class_if_found :: "nat option \<Rightarrow> string \<Rightarrow> page \<Rightarrow> page" where
  \<comment> \<open>\<^verbatim>\<open>if (x) x.classList.add(c)\<close>\<close>
  "add_class_if_found x c p = (case x of None \<Rightarrow> p | Some i \<Rightarrow> classList_add i [c] p)"

definition initRevealAnimations :: "page \<Rightarrow> page" where
  "initRevealAnimations p =
     (let heroContent = querySelector p [[Class ''hero__content'']];
          heroImage = querySelector p [[Class ''hero__image'']];
          p1 = add_class_if_found heroContent ''reveal-left'' p;
          p2 = add_class_if_found heroImage ''reveal-right'' p1;
          educationColumn = querySelector p2 [[Class ''education-martial__column'', FirstChild]];
          martialColumn = querySelector p2 [[Class ''education-martial__column'', LastChild]];
          p3 = add_class_if_found educationColumn ''reveal-left'' p2;
          p4 = add_class_if_found martialColumn ''reveal-right'' p3;
          experienceCards = querySelectorAll p4 [[Class ''experience__card'']];
          p5 = for_each_indexed (\<lambda>q card index. classList_add card [''reveal''] q)
                 experienceCards p4;
          tiktokItems = querySelectorAll p5 [[Class ''tiktok__item'']];
          p6 = for_each_indexed (\<lambda>q item index. classList_add item [''reveal''] q)
                 tiktokItems p5;
          footerSections =
            querySelectorAll p6 [[Class ''footer__info''], [Class ''footer__qr''],
                                 [Class ''footer__social'']]
      in for_each_indexed (\<lambda>q sec index. classList_add sec [''reveal''] q) footerSections p6)"

definition smoothScroll :: "page \<Rightarrow> page" where
  "smoothScroll p =
     (if length (navLinks p) = 0 then p
      else foldl (\<lambda>q link. addEventListener (Node link) ''click'' (SmoothScrollClick link) q)
             p (navLinks p))"

definition observe :: "handler \<Rightarrow> nat \<Rightarrow> page \<Rightarrow> page" where
  \<comment> \<open>\<^verbatim>\<open>observer.observe(el)\<close> of an \<^verbatim>\<open>IntersectionObserver\<close> with the given callback\<close>
  "observe h i p = p\<lparr>observed := observed p @ [(i, h)]\<rparr>"

definition lazyLoadImages :: "page \<Rightarrow> page" where
  "lazyLoadImages p =
     (let images = querySelectorAll p [[Tag ''img'', HasAttr ''data-src'']]
      in foldl (\<lambda>q img. observe LazyImage img (classList_add img [''loading''] q)) p images)"

definition setAttribute :: "nat \<Rightarrow> string \<Rightarrow> string \<Rightarrow> page \<Rightarrow> page" where
  "setAttribute i a v p =
     p\<lparr>elems := (elems p)[i := (elems p ! i)
            \<lparr>attributes := AList.update a v (attributes (elems p ! i))\<rparr>]\<rparr>"

definition enhanceAccessibility :: "page \<Rightarrow> outcome" where
  "enhanceAccessibility p =
     (let p1 = addEventListener Document ''keydown'' EscapeClosesMenu p
      in case navToggle p1 of
           None \<Rightarrow> Throw (TypeError ''navToggle is null'') p1
         | Some t \<Rightarrow>
             (let p2 = setAttribute t ''aria-label'' ''Toggle navigation menu'' p1;
                  p3 = setAttribute t ''aria-expanded'' ''false'' p2
              in Normal (addEventListener (Node t) ''click'' AriaExpandedOnClick p3)))"

definition handleError :: "page \<Rightarrow> page" where
  "handleError p =
     (let p1 = addEventListener Window ''error'' LogError p;
          images = querySelectorAll p1 [[Tag ''img'']];
          p2 = foldl (\<lambda>q img. addEventListener (Node img) ''error'' (HideBrokenImage img) q)
                 p1 images
      in addEventListener Window ''error'' TikTokError p2)"

definition measurePerformance :: "page \<Rightarrow> page" where
  "measurePerformance p = addEventListener Window ''load'' LoadTime p"

definition console_log :: "string \<Rightarrow> page \<Rightarrow> page" where
  "console_log s p = p\<lparr>console := console p @ [Log s]\<rparr>"

definition console_error :: "string \<Rightarrow> js_error \<Rightarrow> page \<Rightarrow> page" where
  "console_error s e p = p\<lparr>console := console p @ [Error s e]\<rparr>"

definition try_catch :: "(page \<Rightarrow> outcome) \<Rightarrow> (js_error \<Rightarrow> page \<Rightarrow> outcome) \<Rightarrow> page \<Rightarrow> outcome"
  where
  "try_catch body handle p =
     (case body p of Normal q \<Rightarrow> Normal q | Throw e q \<Rightarrow> handle e q)"

definition pure :: "(page \<Rightarrow> page) \<Rightarrow> page \<Rightarrow> outcome" where
  \<comment> \<open>a statement that cannot throw\<close>
  "pure f p = Normal (f p)"

text \<open>
  The first version calls \<^verbatim>\<open>highlightActiveSection\<close>, which the source file does not
  define. It is a parameter: \<open>None\<close> when no other script defines it, and then the call
  throws a \<^verbatim>\<open>ReferenceError\<close>.
\<close>

definition call_global :: "string \<Rightarrow> (page \<Rightarrow> outcome) option \<Rightarrow> page \<Rightarrow> outcome" where
  "call_global name f p =
     (case f of None \<Rightarrow> Throw (ReferenceError name) p | Some g \<Rightarrow> g p)"

definition try_block1 :: "(page \<Rightarrow> outcome) option \<Rightarrow> page \<Rightarrow> outcome" where
  \<comment> \<open>the statements inside \<^verbatim>\<open>try {...}\<close> of the first version's \<^verbatim>\<open>initializeApp\<close>\<close>
  "try_block1 highlightActiveSection =
     run_steps
       [pure initRevealAnimations,
        pure smoothScroll,
        pure lazyLoadImages,
        enhanceAccessibility,
        pure handleError,
        pure measurePerformance,
        pure (addEventListener Window ''scroll'' RevealOnScroll),
        pure revealOnScroll1,
        call_global ''highlightActiveSection'' highlightActiveSection,
        pure (console_log ''Website initialized successfully'')]"

definition initializeApp1 :: "(page \<Rightarrow> outcome) option \<Rightarrow> page \<Rightarrow> outcome" where
  "initializeApp1 highlightActiveSection p =
     try_catch (try_block1 highlightActiveSection)
       (\<lambda>error q. Normal (console_error ''Error initializing website:'' error q)) p"

definition try_block2 :: "page \<Rightarrow> outcome" where
  \<comment> \<open>the statements inside \<^verbatim>\<open>try {...}\<close> of the second version's \<^verbatim>\<open>initializeApp\<close>\<close>
  "try_block2 =
     run_steps
       [pure initRevealAnimations,
        pure smoothScroll,
        pure lazyLoadImages,
        enhanceAccessibility,
        pure handleError,
        pure measurePerformance,
        pure (addEventListener Window ''scroll'' RevealOnScroll),
        pure revealOnScroll2]"

definition initializeApp2 :: "page \<Rightarrow> outcome" where
  "initializeApp2 p =
     try_catch try_block2
       (\<lambda>error q. Normal (console_error ''Error initializing website:'' error q)) p"

subsection \<open>The top level of the second version\<close>

text \<open>
  The statements of the second version outside any function, in source order (lines
  1114 to 1511). Its \<^verbatim>\<open>initProfessionalFeatures\<close> constructs five objects; each
  constructor is embedded by what it registers. An \<^verbatim>\<open>IntersectionObserver\<close> is
  recorded by the elements it observes. \<^verbatim>\<open>document.body\<close> is the body element, and
  \<^verbatim>\<open>null\<close> while the parser has not reached it; the loader markup is appended as
  the last child of the body, which ends the document.
\<close>

definition document_body :: "page \<Rightarrow> nat option" where
  "document_body p = querySelector p [[Tag ''body'']]"

definition new_PerformanceObserver :: "page \<Rightarrow> page" where
  "new_PerformanceObserver p =
     foldl (\<lambda>q el. observe InView el q) p
       (querySelectorAll p
          [[Tag ''section''], [Class ''section-group''], [Class ''degree-card''],
           [Class ''job-card'']])"

definition new_KeyboardNavigation :: "page \<Rightarrow> page" where
  "new_KeyboardNavigation p = addEventListener Document ''keydown'' KeyboardHandler p"

definition div_element :: "string \<Rightarrow> nat \<Rightarrow> element" where
  "div_element c parent =
     \<lparr>localName = ''div'', attributes = [], classList = [c], parentNode = Some parent\<rparr>"

definition loader_markup :: "nat \<Rightarrow> nat \<Rightarrow> element list" where
  \<comment> \<open>the loader and the elements its \<^verbatim>\<open>innerHTML\<close> creates; \<open>n\<close> is the loader's position\<close>
  "loader_markup body n =
     [div_element ''page-loader'' body,
      div_element ''loader-content'' n,
      div_element ''loader-dots'' (n + 1),
      div_element ''loader-dot'' (n + 2),
      div_element ''loader-dot'' (n + 2),
      div_element ''loader-dot'' (n + 2),
      div_element ''loader-text'' (n + 1)]"

definition new_LoadingAnimation :: "page \<Rightarrow> outcome" where
  "new_LoadingAnimation p =
     (case document_body p of
        None \<Rightarrow> Throw (TypeError ''document.body is null'') p
      | Some body \<Rightarrow>
          (let loader = length (elems p);
               p1 = p\<lparr>elems := elems p @ loader_markup body loader\<rparr>
           in Normal (addEventListener Window ''load'' (LoaderOnLoad loader) p1)))"

definition new_AnalyticsTracker :: "page \<Rightarrow> page" where
  "new_AnalyticsTracker p =
     (let p1 = console_log ''Page View:'' p;
          p2 = foldl (\<lambda>q btn. addEventListener (Node btn) ''click'' (TrackClick btn) q) p1
                 (querySelectorAll p1 [[Class ''btn'']])
      in foldl (\<lambda>q sec. observe TrackSection sec q) p2 (querySelectorAll p2 [[Tag ''section'']]))"

definition new_ErrorHandler :: "page \<Rightarrow> page" where
  "new_ErrorHandler p =
     addEventListener Window ''unhandledrejection'' UnhandledRejection
       (addEventListener Window ''error'' GlobalError p)"

definition initProfessionalFeatures2 :: "page \<Rightarrow> outcome" where
  "initProfessionalFeatures2 =
     run_steps
       [pure new_PerformanceObserver,
        pure new_KeyboardNavigation,
        new_LoadingAnimation,
        pure new_AnalyticsTracker,
        pure new_ErrorHandler]"

definition bindElements :: "page \<Rightarrow> page" where
  \<comment> \<open>the constants under \<^verbatim>\<open>DOM Elements\<close> and the throttle variables\<close>
  "bindElements p =
     p\<lparr>navToggle := getElementById p ''nav-toggle'',
       navMenu := getElementById p ''nav-menu'',
       navLinks := querySelectorAll p [[Class ''nav__link'']],
       header := getElementById p ''header'',
       backToTopButton := getElementById p ''back-to-top'',
       ticking := False,
       lastScrollY := scrollY p\<rparr>"

definition when_ready :: "handler \<Rightarrow> (page \<Rightarrow> outcome) \<Rightarrow> page \<Rightarrow> outcome" where
  \<comment> \<open>\<^verbatim>\<open>if (document.readyState === 'loading') addEventListener('DOMContentLoaded', f) else f()\<close>\<close>
  "when_ready h f p =
     (if readyState p = Loading
      then Normal (addEventListener Document ''DOMContentLoaded'' h p)
      else f p)"

definition initMobileMenuClose :: "page \<Rightarrow> page" where
  "initMobileMenuClose p =
     (if length (navLinks p) > 0
      then foldl (\<lambda>q link. addEventListener (Node link) ''click'' CloseMenuOnLink q)
             p (navLinks p)
      else p)"

definition installBackToTopClick :: "page \<Rightarrow> page" where
  "installBackToTopClick p =
     (case backToTopButton p of
        None \<Rightarrow> p
      | Some b \<Rightarrow> addEventListener (Node b) ''click'' BackToTopClick p)"

definition init2 :: "page \<Rightarrow> outcome" where
  "init2 = when_ready InitializeApp initializeApp2"

definition script2 :: "page \<Rightarrow> outcome" where
  "script2 =
     run_steps
       [initProfessionalFeatures2,
        pure bindElements,
        when_ready InitMobileMenu (pure initMobileMenu),
        when_ready InitMobileMenuClose (pure initMobileMenuClose),
        pure updateHeader,
        pure (addEventListener Window ''scroll'' OnScroll),
        pure (addEventListener Window ''scroll'' BackToTopOnScroll),
        pure installBackToTopClick,
        init2]"

subsection \<open>Runs of the evaluators and of the throttle\<close>

text \<open>The page as the script finds it: a document, and nothing registered yet.\<close>

definition initial_page :: "element list \<Rightarrow> page" where
  "initial_page d =
     \<lparr>elems = d, readyState = Complete, scrollY = 0, innerHeight = 0, rectTop = (\<lambda>i. 0),
      navToggle = None, navMenu = None, navLinks = [], header = None, backToTopButton = None,
      ticking = False, lastScrollY = 0, inThrottle = False, raf = [], timers = [],
      listeners = [], observed = [], console = []\<rparr>"

definition final_page :: "outcome \<Rightarrow> page" where
  "final_page r = (case r of Normal p \<Rightarrow> p | Throw e p \<Rightarrow> p)"

definition thrown :: "outcome \<Rightarrow> js_error option" where
  "thrown r = (case r of Normal p \<Rightarrow> None | Throw e p \<Rightarrow> Some e)"

text \<open>
  Repeated evaluations: before each run the layout changes to a new viewport height and
  new top offsets.
\<close>

fun evaluations1 :: "(real \<times> (nat \<Rightarrow> real)) list \<Rightarrow> page \<Rightarrow> page" where
  "evaluations1 [] p = p"
| "evaluations1 ((h, tops) # ls) p = evaluations1 ls (revealOnScroll1 (relayout h tops p))"

fun evaluations2 :: "(real \<times> (nat \<Rightarrow> real)) list \<Rightarrow> page \<Rightarrow> page" where
  "evaluations2 [] p = p"
| "evaluations2 ((h, tops) # ls) p = evaluations2 ls (revealOnScroll2 (relayout h tops p))"

text \<open>
  The throttle flag and the pending frame requests agree: a request for
  \<^verbatim>\<open>updateHeader\<close> is pending exactly when \<^verbatim>\<open>ticking\<close> is set. The script starts
  in such a state (nothing pending, the flag cleared by the initial call).
\<close>

definition throttle_consistent :: "page \<Rightarrow> bool" where
  "throttle_consistent p = (raf p = (if ticking p then [UpdateHeader] else []))"

text \<open>
  Traces of raw scroll events and frame ticks; \<open>frame_counts\<close> lists, for each frame tick
  of the trace, how many times that frame invokes \<^verbatim>\<open>updateHeader\<close>.
\<close>

datatype event = ScrollTo real | FrameTick

fun frame_counts :: "event list \<Rightarrow> page \<Rightarrow> nat list" where
  "frame_counts [] p = []"
| "frame_counts (ScrollTo y # es) p = frame_counts es (scroll_event p y)"
| "frame_counts (FrameTick # es) p =
     count_list (frame_callbacks p) UpdateHeader # frame_counts es (frame p)"

subsection \<open>Example documents\<close>

definition el :: "string \<Rightarrow> string \<Rightarrow> string list \<Rightarrow> nat option \<Rightarrow> element" where
  "el name ident cs parent =
     \<lparr>localName = name, attributes = (if ident = [] then [] else [(''id'', ident)]),
      classList = cs, parentNode = parent\<rparr>"

definition example_document :: "element list" where
  \<comment> \<open>html, body, header, navigation toggle with icon, menu with one link, a card, a button\<close>
  "example_document =
     [el ''html'' [] [] None,
      el ''body'' [] [] (Some 0),
      el ''header'' ''header'' [] (Some 1),
      el ''div'' ''nav-toggle'' [] (Some 2),
      el ''i'' [] [''fa-bars''] (Some 3),
      el ''ul'' ''nav-menu'' [''nav__menu''] (Some 2),
      el ''a'' [] [''nav__link''] (Some 5),
      el ''div'' [] [''experience__card''] (Some 1),
      el ''a'' ''back-to-top'' [] (Some 1)]"

definition example_without_toggle :: "element list" where
  \<comment> \<open>the same page without the navigation toggle and its icon\<close>
  "example_without_toggle =
     [el ''html'' [] [] None,
      el ''body'' [] [] (Some 0),
      el ''header'' ''header'' [] (Some 1),
      el ''ul'' ''nav-menu'' [''nav__menu''] (Some 2),
      el ''a'' [] [''nav__link''] (Some 3),
      el ''div'' [] [''experience__card''] (Some 1),
      el ''a'' ''back-to-top'' [] (Some 1)]"

definition example_without_body :: "element list" where
  \<comment> \<open>the document while the script runs from the head: the body is not parsed yet\<close>
  "example_without_body =
     [el ''html'' [] [] None,
      el ''head'' [] [] (Some 0),
      el ''script'' [] [] (Some 1)]"

definition example_without_button :: "element list" where
  \<comment> \<open>the example document without the back-to-top button\<close>
  "example_without_button = butlast example_document"

definition example_page :: page where
  \<comment> \<open>the example document, laid out in a viewport 600 high, after the second version has run\<close>
  "example_page = final_page (script2 (relayout 600 (\<lambda>i. 0) (initial_page example_document)))"

definition example_page_without_toggle :: page where
  "example_page_without_toggle =
     final_page (script2 (relayout 600 (\<lambda>i. 0) (initial_page example_without_toggle)))"

definition example_page_without_button :: page where
  "example_page_without_button =
     final_page (script2 (relayout 600 (\<lambda>i. 0) (initial_page example_without_button)))"

definition section_page :: "string list \<Rightarrow> real \<Rightarrow> real \<Rightarrow> page" where
  \<comment> \<open>a single \<^verbatim>\<open>section\<close> element with the given classes, top offset and viewport height\<close>
  "section_page cs t h = relayout h (\<lambda>i. t) (initial_page [el ''section'' [] cs None])"

definition div_page :: "string list \<Rightarrow> real \<Rightarrow> real \<Rightarrow> page" where
  \<comment> \<open>a single \<^verbatim>\<open>div\<close> element with the given classes, top offset and viewport height\<close>
  "div_page cs t h = relayout h (\<lambda>i. t) (initial_page [el ''div'' [] cs None])"

section \<open>Properties\<close>

subsection \<open>Class lists\<close>

lemma set_add_token [simp]: "set (add_token c cs) = insert c (set cs)"
  by (auto simp: add_token_def)

lemma set_remove_token [simp]: "set (remove_token c cs) = set cs - {c}"
  by (auto simp: remove_token_def)

lemma set_toggle_token:
  "set (toggle_token c cs) = (if c \<in> set cs then set cs - {c} else insert c (set cs))"
  by (auto simp: toggle_token_def)

lemma set_add_tokens [simp]: "set (add_tokens ts cs) = set cs \<union> set ts"
  unfolding add_tokens_def by (induction ts arbitrary: cs) auto

lemma set_remove_tokens [simp]: "set (remove_tokens ts cs) = set cs - set ts"
  unfolding remove_tokens_def by (induction ts arbitrary: cs) auto

lemma length_update_classes [simp]: "length (elems (update_classes i f p)) = length (elems p)"
  by (simp add: update_classes_def)

lemma has_class_update_classes:
  "has_class (update_classes i f p) j c =
     (if j = i then i < length (elems p) \<and> c \<in> set (f (classList (elems p ! i)))
      else has_class p j c)"
  by (auto simp: has_class_def update_classes_def contains_def)

lemma has_class_classList_add:
  "has_class (classList_add i ts p) j c =
     (if j = i then i < length (elems p) \<and> (c \<in> set ts \<or> has_class p i c)
      else has_class p j c)"
  by (auto simp: classList_add_def has_class_update_classes)
     (auto simp: has_class_def contains_def)

lemma has_class_classList_remove:
  "has_class (classList_remove i ts p) j c =
     (if j = i then c \<notin> set ts \<and> has_class p i c else has_class p j c)"
  by (auto simp: classList_remove_def has_class_update_classes)
     (auto simp: has_class_def contains_def)

lemma has_class_classList_toggle:
  "has_class (classList_toggle i t p) j c =
     (if j = i \<and> c = t then i < length (elems p) \<and> \<not> has_class p i c
      else has_class p j c)"
  by (auto simp: classList_toggle_def has_class_update_classes set_toggle_token)
     (auto simp: has_class_def contains_def)

lemma has_class_elems_cong: "elems q = elems p \<Longrightarrow> has_class q = has_class p"
  by (simp add: has_class_def fun_eq_iff)

lemma localName_update_classes [simp]:
  "map localName (elems (update_classes i f p)) = map localName (elems p)"
proof (cases "i < length (elems p)")
  case True
  then have "(map localName (elems p))[i := localName (elems p ! i)] = map localName (elems p)"
    by (metis list_update_id nth_map)
  then show ?thesis by (simp add: update_classes_def map_update)
next
  case False
  then show ?thesis by (simp add: update_classes_def list_update_beyond)
qed

lemma localName_nth:
  "map localName (elems q) = map localName (elems p) \<Longrightarrow> i < length (elems p) \<Longrightarrow>
     localName (elems q ! i) = localName (elems p ! i)"
  by (metis length_map nth_map)

lemma foldl_preserve:
  assumes "\<And>q x. g (f q x) = g q"
  shows "g (foldl f p xs) = g p"
  by (induction xs arbitrary: p) (simp_all add: assms)

lemma for_each_preserve:
  assumes "\<And>q x k. g (f q x k) = g q"
  shows "g (for_each_indexed f xs p) = g p"
  unfolding for_each_indexed_def
  by (rule foldl_preserve) (simp add: case_prod_beta assms)

subsection \<open>The header scroll effect\<close>

lemma updateHeader_fields [simp]:
  "ticking (updateHeader p) = False"
  "raf (updateHeader p) = raf p"
  "lastScrollY (updateHeader p) = scrollY p"
  "scrollY (updateHeader p) = scrollY p"
  "header (updateHeader p) = header p"
  "length (elems (updateHeader p)) = length (elems p)"
  by (auto simp: updateHeader_def Let_def classList_add_def classList_remove_def
      update_classes_def split: option.splits)

lemma has_class_updateHeader:
  assumes "header p = Some h" and "h < length (elems p)"
  shows "has_class (updateHeader p) h ''scrolled'' = (scrollY p > 50)"
proof -
  let ?q = "if scrollY p > 50 then classList_add h [''scrolled''] p
            else classList_remove h [''scrolled''] p"
  have "elems (updateHeader p) = elems ?q"
    using assms(1) by (simp add: updateHeader_def Let_def)
  then have "has_class (updateHeader p) h ''scrolled'' = has_class ?q h ''scrolled''"
    by (rule arg_cong [OF has_class_elems_cong, of _ _ "\<lambda>f. f h ''scrolled''"])
  then show ?thesis
    using assms(2) by (simp add: has_class_classList_add has_class_classList_remove)
qed

text \<open>
  C10. After every run of \<^verbatim>\<open>updateHeader\<close> the header element carries the class
  \<^verbatim>\<open>scrolled\<close> exactly when the vertical scroll position is strictly greater than
  50, whatever its classes were before: at exactly 50 the class is absent, and the run
  adds or removes the class as the threshold is crossed. The header reference and the
  document size are unchanged, so the statement applies to every later run as well.
\<close>

theorem updateHeader_scrolled:
  assumes "header p = Some h" and "h < length (elems p)"
  shows "has_class (updateHeader p) h ''scrolled'' = (scrollY p > 50)
       \<and> header (updateHeader p) = Some h
       \<and> length (elems (updateHeader p)) = length (elems p)"
  using assms by (simp add: has_class_updateHeader)

theorem updateHeader_scrolled_witness:
  "header example_page = Some 2 \<and> 2 < length (elems example_page)
   \<and> has_class (updateHeader (example_page\<lparr>scrollY := 51\<rparr>)) 2 ''scrolled''
   \<and> \<not> has_class (updateHeader (example_page\<lparr>scrollY := 50\<rparr>)) 2 ''scrolled''
   \<and> \<not> has_class (updateHeader ((updateHeader (example_page\<lparr>scrollY := 300\<rparr>))\<lparr>scrollY := 10\<rparr>))
          2 ''scrolled''"
proof -
  have h: "header example_page = Some 2" by code_simp
  have l: "2 < length (elems example_page)" by code_simp
  have a: "has_class (updateHeader (example_page\<lparr>scrollY := 51\<rparr>)) 2 ''scrolled''"
    using updateHeader_scrolled [of "example_page\<lparr>scrollY := 51\<rparr>" 2] h l by simp
  have b: "\<not> has_class (updateHeader (example_page\<lparr>scrollY := 50\<rparr>)) 2 ''scrolled''"
    using updateHeader_scrolled [of "example_page\<lparr>scrollY := 50\<rparr>" 2] h l by simp
  have c: "\<not> has_class (updateHeader ((updateHeader (example_page\<lparr>scrollY := 300\<rparr>))\<lparr>scrollY := 10\<rparr>))
          2 ''scrolled''"
    using updateHeader_scrolled
            [of "(updateHeader (example_page\<lparr>scrollY := 300\<rparr>))\<lparr>scrollY := 10\<rparr>" 2] h l
    by simp
  show ?thesis using h l a b c by simp
qed

subsection \<open>The scroll throttle\<close>

lemma onScroll_fields [simp]:
  "ticking (onScroll p) = True"
  "raf (onScroll p) = (if ticking p then raf p else raf p @ [UpdateHeader])"
  "scrollY (onScroll p) = scrollY p"
  "header (onScroll p) = header p"
  "elems (onScroll p) = elems p"
  by (simp_all add: onScroll_def requestAnimationFrame_def)

lemma scroll_event_consistent:
  "throttle_consistent p \<Longrightarrow>
     throttle_consistent (scroll_event p y) \<and> ticking (scroll_event p y)
     \<and> raf (scroll_event p y) = [UpdateHeader] \<and> scrollY (scroll_event p y) = y"
  by (auto simp: throttle_consistent_def scroll_event_def)

lemma scroll_events_consistent:
  "throttle_consistent p \<Longrightarrow> throttle_consistent (scroll_events ys p)"
  unfolding scroll_events_def
  by (induction ys arbitrary: p) (auto simp: scroll_event_consistent)

lemma scroll_events_snoc: "scroll_events (ys @ [y]) p = scroll_event (scroll_events ys p) y"
  by (simp add: scroll_events_def)

lemma scroll_events_document [simp]:
  "header (scroll_events ys p) = header p"
  "elems (scroll_events ys p) = elems p"
  unfolding scroll_events_def
  by (induction ys arbitrary: p) (simp_all add: scroll_event_def)

lemma frame_consistent:
  "throttle_consistent p \<Longrightarrow>
     throttle_consistent (frame p) \<and> \<not> ticking (frame p) \<and> raf (frame p) = []"
  by (auto simp: throttle_consistent_def frame_def frame_callbacks_def split: if_splits)

lemma count_callbacks:
  "throttle_consistent p \<Longrightarrow> count_list (frame_callbacks p) UpdateHeader \<le> 1"
  by (auto simp: throttle_consistent_def frame_callbacks_def)

lemma frame_counts_bounded:
  "throttle_consistent p \<Longrightarrow> \<forall>n \<in> set (frame_counts es p). n \<le> 1"
proof (induction es p rule: frame_counts.induct)
  case (1 p)
  then show ?case by simp
next
  case (2 y es p)
  then show ?case by (simp add: scroll_event_consistent)
next
  case (3 es p)
  then show ?case using frame_consistent [of p] count_callbacks [of p] by simp
qed

text \<open>
  C2. From a state in which the flag and the pending requests agree, any number of raw
  scroll events leaves at most one request for \<^verbatim>\<open>updateHeader\<close> for the next frame,
  so the frame tick invokes the wrapped callback at most once; and in every trace of
  scroll events and frame ticks, each frame tick invokes it at most once. The wrapped
  callback is \<^verbatim>\<open>updateHeader\<close>.
\<close>

theorem throttle_once_per_frame:
  assumes "throttle_consistent p"
  shows "count_list (frame_callbacks (scroll_events ys p)) UpdateHeader \<le> 1
       \<and> (\<forall>n \<in> set (frame_counts es p). n \<le> 1)"
  using assms count_callbacks [OF scroll_events_consistent] frame_counts_bounded by blast

theorem throttle_once_per_frame_witness:
  "throttle_consistent example_page
   \<and> count_list (frame_callbacks (scroll_events (replicate 1 120) example_page)) UpdateHeader \<le> 1
   \<and> count_list (frame_callbacks (scroll_events (replicate 10 120) example_page)) UpdateHeader \<le> 1
   \<and> count_list (frame_callbacks (scroll_events (replicate 1000 120) example_page)) UpdateHeader \<le> 1
   \<and> frame_counts [ScrollTo 10, ScrollTo 20, ScrollTo 30, FrameTick, FrameTick, ScrollTo 5, FrameTick]
         example_page = [1, 0, 1]"
proof -
  have c: "throttle_consistent example_page" by code_simp
  have e: "frame_counts
             [ScrollTo 10, ScrollTo 20, ScrollTo 30, FrameTick, FrameTick, ScrollTo 5, FrameTick]
             example_page = [1, 0, 1]"
    by code_simp
  show ?thesis
    using c e
      throttle_once_per_frame [OF c, of "replicate 1 120" "[]"]
      throttle_once_per_frame [OF c, of "replicate 10 120" "[]"]
      throttle_once_per_frame [OF c, of "replicate 1000 120" "[]"]
    by blast
qed

text \<open>
  C3. \<^verbatim>\<open>onScroll\<close> sets the flag, and requests the callback when the flag was not
  set; \<^verbatim>\<open>updateHeader\<close> clears the flag. After any non-empty sequence of scroll events
  followed by a frame tick, exactly one request was pending, the frame has run
  \<^verbatim>\<open>updateHeader\<close> on the position of the last scroll event (it is recorded in
  \<^verbatim>\<open>lastScrollY\<close> and decides the header class), and the flag is clear again.
\<close>

theorem throttle_keeps_last_scroll:
  assumes "throttle_consistent p" and "ys \<noteq> []"
  shows "ticking (onScroll p)
       \<and> raf (onScroll p) = (if ticking p then raf p else raf p @ [UpdateHeader])
       \<and> \<not> ticking (updateHeader p)
       \<and> ticking (scroll_events ys p)
       \<and> frame_callbacks (scroll_events ys p) = [UpdateHeader]
       \<and> \<not> ticking (frame (scroll_events ys p))
       \<and> raf (frame (scroll_events ys p)) = []
       \<and> lastScrollY (frame (scroll_events ys p)) = last ys
       \<and> (\<forall>h. header p = Some h \<and> h < length (elems p) \<longrightarrow>
             has_class (frame (scroll_events ys p)) h ''scrolled'' = (last ys > 50))"
proof -
  obtain zs z where ys: "ys = zs @ [z]"
    using assms(2) by (meson rev_exhaust)
  let ?q = "scroll_events ys p"
  have c: "throttle_consistent (scroll_events zs p)"
    using assms(1) by (rule scroll_events_consistent)
  have q: "ticking ?q \<and> raf ?q = [UpdateHeader] \<and> scrollY ?q = z"
    using scroll_event_consistent [OF c, of z] by (simp add: ys scroll_events_snoc)
  have f: "frame ?q = updateHeader (?q\<lparr>raf := []\<rparr>)"
    using q by (simp add: frame_def frame_callbacks_def)
  have "has_class (frame ?q) h ''scrolled'' = (last ys > 50)"
    if "header p = Some h" and "h < length (elems p)" for h
    using has_class_updateHeader [of "?q\<lparr>raf := []\<rparr>" h] that q f by (simp add: ys)
  then show ?thesis using q f by (simp add: frame_callbacks_def ys)
qed

theorem throttle_keeps_last_scroll_witness:
  "throttle_consistent example_page \<and> [10, 400, 30 :: real] \<noteq> []
   \<and> lastScrollY (frame (scroll_events [10, 400, 30] example_page)) = 30
   \<and> \<not> has_class (frame (scroll_events [10, 400, 30] example_page)) 2 ''scrolled''
   \<and> has_class (frame (scroll_events [10, 30, 400] example_page)) 2 ''scrolled''
   \<and> \<not> ticking (frame (scroll_events [10, 30, 400] example_page))"
proof -
  have c: "throttle_consistent example_page" by code_simp
  have h: "header example_page = Some 2" by code_simp
  have l: "2 < length (elems example_page)" by code_simp
  show ?thesis
    using c h l
      throttle_keeps_last_scroll [OF c, of "[10, 400, 30]"]
      throttle_keeps_last_scroll [OF c, of "[10, 30, 400]"]
    by simp
qed

subsection \<open>The mobile menu toggle\<close>

lemma classList_toggle_refs [simp]:
  "navMenu (classList_toggle i c p) = navMenu p"
  "navToggle (classList_toggle i c p) = navToggle p"
  "length (elems (classList_toggle i c p)) = length (elems p)"
  by (simp_all add: classList_toggle_def update_classes_def)

lemma toggleMenu_Normal:
  assumes "navMenu p = Some m" and "navToggle p = Some t"
  shows "\<exists>q. toggleMenu p = Normal q \<and> navMenu q = Some m \<and> navToggle q = Some t
           \<and> length (elems q) = length (elems p)
           \<and> has_class q m ''active'' = (m < length (elems p) \<and> \<not> has_class p m ''active'')"
  using assms
  by (auto simp: toggleMenu_def Let_def has_class_classList_toggle split: option.splits)

text \<open>
  C4. When the menu and the toggle exist, the click listener of the toggle completes, each
  click flips the presence of \<^verbatim>\<open>active\<close> on the menu, and two clicks return it to
  its original value.
\<close>

theorem toggle_twice_restores_marker:
  assumes "navMenu p = Some m" and "navToggle p = Some t" and "m < length (elems p)"
  shows "\<exists>q r. toggleMenu p = Normal q \<and> toggleMenu q = Normal r
           \<and> has_class q m ''active'' = (\<not> has_class p m ''active'')
           \<and> has_class r m ''active'' = has_class p m ''active''"
proof -
  obtain q where q: "toggleMenu p = Normal q" "navMenu q = Some m" "navToggle q = Some t"
      "length (elems q) = length (elems p)"
      "has_class q m ''active'' = (m < length (elems p) \<and> \<not> has_class p m ''active'')"
    using toggleMenu_Normal [OF assms(1,2)] by blast
  obtain r where r: "toggleMenu q = Normal r"
      "has_class r m ''active'' = (m < length (elems q) \<and> \<not> has_class q m ''active'')"
    using toggleMenu_Normal [OF q(2,3)] by blast
  show ?thesis using q r assms(3) by auto
qed

theorem toggle_twice_restores_marker_witness:
  "navMenu example_page = Some 5 \<and> navToggle example_page = Some 3
   \<and> 5 < length (elems example_page)
   \<and> \<not> has_class example_page 5 ''active''
   \<and> has_class (final_page (toggleMenu example_page)) 5 ''active''
   \<and> \<not> has_class (final_page (toggleMenu (final_page (toggleMenu example_page)))) 5 ''active''"
proof -
  have m: "navMenu example_page = Some 5" by code_simp
  have t: "navToggle example_page = Some 3" by code_simp
  have l: "5 < length (elems example_page)" by code_simp
  have a: "\<not> has_class example_page 5 ''active''" by code_simp
  obtain q r where qr: "toggleMenu example_page = Normal q" "toggleMenu q = Normal r"
      "has_class q 5 ''active'' = (\<not> has_class example_page 5 ''active'')"
      "has_class r 5 ''active'' = has_class example_page 5 ''active''"
    using toggle_twice_restores_marker [OF m t l] by blast
  show ?thesis using m t l a qr by (simp add: final_page_def)
qed

subsection \<open>Scroll reveal and section highlighting\<close>

lemma relayout_simps [simp]:
  "elems (relayout h tops p) = elems p"
  "rectTop (relayout h tops p) = tops"
  "innerHeight (relayout h tops p) = h"
  "has_class (relayout h tops p) = has_class p"
  by (simp_all add: relayout_def has_class_def fun_eq_iff)

lemma set_querySelectorAll:
  "set (querySelectorAll p sel) = {i. i < length (elems p) \<and> matches (elems p) i sel}"
  by (auto simp: querySelectorAll_def)

lemma distinct_querySelectorAll: "distinct (querySelectorAll p sel)"
  by (simp add: querySelectorAll_def)

lemma matches_section: "matches d i [[Tag ''section'']] = (localName (d ! i) = ''section'')"
  by (simp add: matches_def)

lemma reveal_element_layout [simp]:
  "rectTop (reveal_element p i) = rectTop p"
  "innerHeight (reveal_element p i) = innerHeight p"
  "length (elems (reveal_element p i)) = length (elems p)"
  "map localName (elems (reveal_element p i)) = map localName (elems p)"
  by (auto simp: reveal_element_def Let_def classList_add_def)
     (auto simp: update_classes_def)

lemma has_class_reveal_element:
  "has_class (reveal_element p i) j c =
     (has_class p j c \<or>
      (j = i \<and> i < length (elems p) \<and> c = ''active'' \<and> rectTop p i < innerHeight p - 100))"
  by (auto simp: reveal_element_def Let_def has_class_classList_add) (auto simp: has_class_def)

lemma foldl_reveal_layout [simp]:
  "rectTop (foldl reveal_element p xs) = rectTop p"
  "innerHeight (foldl reveal_element p xs) = innerHeight p"
  "length (elems (foldl reveal_element p xs)) = length (elems p)"
  "map localName (elems (foldl reveal_element p xs)) = map localName (elems p)"
  by (induction xs arbitrary: p) auto

lemma has_class_foldl_reveal:
  "has_class (foldl reveal_element p xs) j c =
     (has_class p j c \<or>
      (j \<in> set xs \<and> j < length (elems p) \<and> c = ''active''
       \<and> rectTop p j < innerHeight p - 100))"
  by (induction xs arbitrary: p) (auto simp: has_class_reveal_element)

lemma has_class_revealOnScroll2:
  "has_class (revealOnScroll2 p) j c =
     (has_class p j c \<or>
      (c = ''active'' \<and> j < length (elems p) \<and> matches (elems p) j reveal_selector
       \<and> rectTop p j < innerHeight p - 100))"
  by (auto simp: revealOnScroll2_def Let_def has_class_foldl_reveal set_querySelectorAll)

lemma setTimeout_layout [simp]:
  "elems (setTimeout a ms p) = elems p"
  "rectTop (setTimeout a ms p) = rectTop p"
  "innerHeight (setTimeout a ms p) = innerHeight p"
  by (simp_all add: setTimeout_def)

lemma elems_highlight_section:
  "elems (highlight_section p s) =
     (if rectTop p s < innerHeight p - 50 \<and> rectTop p s > - innerHeight p / 2
      then elems
             (if has_class (classList_add s [''section-highlight'', ''active''] p) s
                   ''education-career''
              then classList_add s [''section-glow'']
                     (classList_add s [''section-highlight'', ''active''] p)
              else classList_add s [''section-highlight'', ''active''] p)
      else elems (classList_remove s [''section-highlight'', ''active'', ''section-glow''] p))"
  by (auto simp: highlight_section_def Let_def for_each_preserve split: option.splits)

lemma highlight_section_layout [simp]:
  "rectTop (highlight_section p s) = rectTop p"
  "innerHeight (highlight_section p s) = innerHeight p"
  by (auto simp: highlight_section_def Let_def for_each_preserve classList_add_def
      classList_remove_def update_classes_def split: option.splits)

lemma highlight_section_document [simp]:
  "length (elems (highlight_section p s)) = length (elems p)"
  "map localName (elems (highlight_section p s)) = map localName (elems p)"
  by (simp_all add: elems_highlight_section classList_add_def classList_remove_def)

lemma has_class_highlight_other:
  assumes "j \<noteq> s"
  shows "has_class (highlight_section p s) j c = has_class p j c"
  using assms
  by (auto simp: has_class_def elems_highlight_section classList_add_def classList_remove_def
      update_classes_def)

lemma has_class_highlight_self:
  assumes "s < length (elems p)" and "c = ''section-highlight'' \<or> c = ''active''"
  shows "has_class (highlight_section p s) s c =
     (rectTop p s < innerHeight p - 50 \<and> rectTop p s > - innerHeight p / 2)"
  using assms
  by (auto simp: has_class_def elems_highlight_section classList_add_def classList_remove_def
      update_classes_def contains_def)

lemma foldl_highlight_layout [simp]:
  "rectTop (foldl highlight_section p ss) = rectTop p"
  "innerHeight (foldl highlight_section p ss) = innerHeight p"
  "length (elems (foldl highlight_section p ss)) = length (elems p)"
  "map localName (elems (foldl highlight_section p ss)) = map localName (elems p)"
  by (induction ss arbitrary: p) auto

lemma has_class_foldl_highlight_other:
  "j \<notin> set ss \<Longrightarrow> has_class (foldl highlight_section p ss) j c = has_class p j c"
  by (induction ss arbitrary: p) (auto simp: has_class_highlight_other)

lemma has_class_foldl_highlight_self:
  assumes "distinct ss" and "j \<in> set ss" and "j < length (elems p)"
    and "c = ''section-highlight'' \<or> c = ''active''"
  shows "has_class (foldl highlight_section p ss) j c =
     (rectTop p j < innerHeight p - 50 \<and> rectTop p j > - innerHeight p / 2)"
  using assms
proof (induction ss arbitrary: p)
  case Nil
  then show ?case by simp
next
  case (Cons s ss)
  show ?case
  proof (cases "j = s")
    case True
    then have "j \<notin> set ss" using Cons.prems(1) by simp
    then show ?thesis
      using Cons.prems True
      by (simp add: has_class_foldl_highlight_other has_class_highlight_self)
  next
    case False
    then have "j \<in> set ss" using Cons.prems(2) by simp
    then show ?thesis
      using Cons.IH [of "highlight_section p s"] Cons.prems by simp
  qed
qed

lemma revealOnScroll1_document [simp]:
  "length (elems (revealOnScroll1 p)) = length (elems p)"
  "map localName (elems (revealOnScroll1 p)) = map localName (elems p)"
  by (simp_all add: revealOnScroll1_def Let_def)

lemma has_class_revealOnScroll1_other:
  assumes "localName (elems p ! i) \<noteq> ''section''"
  shows "has_class (revealOnScroll1 p) i c = has_class (revealOnScroll2 p) i c"
proof -
  have "i \<notin> set (querySelectorAll p [[Tag ''section'']])"
    using assms by (simp add: set_querySelectorAll matches_section)
  then show ?thesis
    by (simp add: revealOnScroll1_def revealOnScroll2_def Let_def
        has_class_foldl_highlight_other)
qed

lemma has_class_revealOnScroll1_section:
  assumes "i < length (elems p)" and "localName (elems p ! i) = ''section''"
    and "c = ''section-highlight'' \<or> c = ''active''"
  shows "has_class (revealOnScroll1 p) i c =
     (rectTop p i < innerHeight p - 50 \<and> rectTop p i > - innerHeight p / 2)"
proof -
  have "i \<in> set (querySelectorAll p [[Tag ''section'']])"
    using assms by (simp add: set_querySelectorAll matches_section)
  then show ?thesis
    using assms(1,3) has_class_foldl_highlight_self
      [of "querySelectorAll p [[Tag ''section'']]" i
          "foldl reveal_element p (querySelectorAll p reveal_selector)" c]
    by (simp add: revealOnScroll1_def Let_def distinct_querySelectorAll)
qed

lemma evaluations1_snoc:
  "evaluations1 (ls @ [(h, tops)]) p = revealOnScroll1 (relayout h tops (evaluations1 ls p))"
  by (induction ls p rule: evaluations1.induct) simp_all

lemma evaluations1_document [simp]:
  "length (elems (evaluations1 ls p)) = length (elems p)"
  "map localName (elems (evaluations1 ls p)) = map localName (elems p)"
  by (induction ls p rule: evaluations1.induct) simp_all

lemma evaluations2_monotonic:
  "has_class p i ''active'' \<Longrightarrow> has_class (evaluations2 ls p) i ''active''"
  by (induction ls p rule: evaluations2.induct) (auto simp: has_class_revealOnScroll2)

lemma evaluations1_monotonic:
  "has_class p i ''active'' \<Longrightarrow> localName (elems p ! i) \<noteq> ''section'' \<Longrightarrow>
     has_class (evaluations1 ls p) i ''active''"
proof (induction ls p rule: evaluations1.induct)
  case (1 p)
  then show ?case by simp
next
  case (2 h tops ls p)
  let ?q = "revealOnScroll1 (relayout h tops p)"
  have i: "i < length (elems p)" using "2.prems"(1) by (simp add: has_class_def)
  have "has_class ?q i ''active''"
    using "2.prems" by (simp add: has_class_revealOnScroll1_other has_class_revealOnScroll2)
  moreover have "localName (elems ?q ! i) = localName (elems p ! i)"
    using localName_nth [of ?q p i] i by simp
  ultimately show ?case using "2.IH" "2.prems"(2) by simp
qed

text \<open>
  C1, as stated, fails: an element that already carries \<^verbatim>\<open>active\<close> keeps it when its
  top offset is beyond the threshold (top 700 in a viewport 600 high), in both versions.
\<close>

theorem reveal_exactly_threshold_counterexample:
  "\<not> (has_class (revealOnScroll2 (div_page [''reveal'', ''active''] 700 600)) 0 ''active''
        = (rectTop (div_page [''reveal'', ''active''] 700 600) 0
             < innerHeight (div_page [''reveal'', ''active''] 700 600) - 100))
   \<and> \<not> (has_class (revealOnScroll1 (div_page [''reveal'', ''active''] 700 600)) 0 ''active''
        = (rectTop (div_page [''reveal'', ''active''] 700 600) 0
             < innerHeight (div_page [''reveal'', ''active''] 700 600) - 100))"
  by code_simp

text \<open>
  C1, amended. For every reveal-tagged element, at the return of one run of the second
  version's evaluator the class \<^verbatim>\<open>active\<close> is present exactly when it was present before
  the run or the top offset \<open>t\<close> satisfies \<open>t < h - 100\<close>; the same holds for the first version's
  evaluator when the element is not a \<^verbatim>\<open>section\<close>. So an element that does not carry
  the class before the run carries it afterwards exactly when \<open>t < h - 100\<close>, and at
  \<open>t = h - 100\<close> the class is not added.
\<close>

theorem reveal_marker_after_run:
  assumes "i < length (elems p)" and "matches (elems p) i reveal_selector"
  shows "has_class (revealOnScroll2 p) i ''active'' =
           (has_class p i ''active'' \<or> rectTop p i < innerHeight p - 100)
       \<and> (localName (elems p ! i) \<noteq> ''section'' \<longrightarrow>
            has_class (revealOnScroll1 p) i ''active'' =
              (has_class p i ''active'' \<or> rectTop p i < innerHeight p - 100))"
  using assms by (auto simp: has_class_revealOnScroll1_other has_class_revealOnScroll2)

theorem reveal_marker_after_run_witness:
  "0 < length (elems (div_page [''reveal''] 500 600))
   \<and> matches (elems (div_page [''reveal''] 500 600)) 0 reveal_selector
   \<and> \<not> has_class (revealOnScroll2 (div_page [''reveal''] 500 600)) 0 ''active''
   \<and> \<not> has_class (revealOnScroll1 (div_page [''reveal''] 500 600)) 0 ''active''
   \<and> has_class (revealOnScroll2 (div_page [''reveal''] 499 600)) 0 ''active''
   \<and> has_class (revealOnScroll1 (div_page [''reveal''] 499 600)) 0 ''active''"
proof -
  let ?p = "div_page [''reveal''] 500 600"
  let ?q = "div_page [''reveal''] 499 600"
  have lp: "0 < length (elems ?p)" and mp: "matches (elems ?p) 0 reveal_selector"
    and np: "\<not> has_class ?p 0 ''active''" and sp: "localName (elems ?p ! 0) \<noteq> ''section''"
    by code_simp+
  have lq: "0 < length (elems ?q)" and mq: "matches (elems ?q) 0 reveal_selector"
    and nq: "\<not> has_class ?q 0 ''active''" and sq: "localName (elems ?q ! 0) \<noteq> ''section''"
    by code_simp+
  have g: "rectTop ?p 0 = 500" "innerHeight ?p = 600" "rectTop ?q 0 = 499" "innerHeight ?q = 600"
    by (simp_all add: div_page_def)
  show ?thesis
    using reveal_marker_after_run [OF lp mp] reveal_marker_after_run [OF lq mq]
      lp mp np sp nq sq g
    by simp
qed

text \<open>
  C7. For every \<^verbatim>\<open>section\<close> element, after any sequence of evaluations of the first
  version the classes \<^verbatim>\<open>section-highlight\<close> and \<^verbatim>\<open>active\<close> are present exactly
  when, at the last evaluation, the top offset was in the band
  \<open>top < h - 50\<close> and \<open>top > - h / 2\<close>: each run adds them inside the band and removes them
  outside it, whatever the earlier runs did.
\<close>

theorem section_highlight_bidirectional:
  assumes "i < length (elems p)" and "localName (elems p ! i) = ''section''"
  shows "has_class (evaluations1 (ls @ [(h, tops)]) p) i ''section-highlight'' =
           (tops i < h - 50 \<and> tops i > - h / 2)
       \<and> has_class (evaluations1 (ls @ [(h, tops)]) p) i ''active'' =
           (tops i < h - 50 \<and> tops i > - h / 2)"
proof -
  let ?q = "relayout h tops (evaluations1 ls p)"
  have "i < length (elems ?q)" using assms(1) by simp
  moreover have "localName (elems ?q ! i) = ''section''"
    using localName_nth [of "evaluations1 ls p" p i] assms by simp
  ultimately show ?thesis
    by (simp add: evaluations1_snoc has_class_revealOnScroll1_section)
qed

theorem section_highlight_bidirectional_witness:
  "0 < length (elems (section_page [] 0 600))
   \<and> localName (elems (section_page [] 0 600) ! 0) = ''section''
   \<and> has_class (evaluations1 [(600, \<lambda>i. 100)] (section_page [] 0 600)) 0 ''section-highlight''
   \<and> \<not> has_class (evaluations1 [(600, \<lambda>i. 100), (600, \<lambda>i. 700)] (section_page [] 0 600)) 0
          ''section-highlight''
   \<and> has_class
        (evaluations1 [(600, \<lambda>i. 100), (600, \<lambda>i. 700), (600, \<lambda>i. - 100)] (section_page [] 0 600))
        0 ''section-highlight''
   \<and> \<not> has_class
        (evaluations1 [(600, \<lambda>i. 100), (600, \<lambda>i. 700), (600, \<lambda>i. - 100), (600, \<lambda>i. - 300)]
           (section_page [] 0 600))
        0 ''active''"
proof -
  let ?p = "section_page [] 0 600"
  have l: "0 < length (elems ?p)" and s: "localName (elems ?p ! 0) = ''section''"
    by code_simp+
  show ?thesis
    using l s
      section_highlight_bidirectional [OF l s, of "[]" 600 "\<lambda>i. 100"]
      section_highlight_bidirectional [OF l s, of "[(600, \<lambda>i. 100)]" 600 "\<lambda>i. 700"]
      section_highlight_bidirectional
        [OF l s, of "[(600, \<lambda>i. 100), (600, \<lambda>i. 700)]" 600 "\<lambda>i. - 100"]
      section_highlight_bidirectional
        [OF l s, of "[(600, \<lambda>i. 100), (600, \<lambda>i. 700), (600, \<lambda>i. - 100)]" 600 "\<lambda>i. - 300"]
    by simp
qed

text \<open>
  C8, as stated, fails in the first version: a reveal-tagged \<^verbatim>\<open>section\<close> gets
  \<^verbatim>\<open>active\<close> at top 100 in a viewport 600 high, and the next run, at top -400, removes
  it in the section-highlight branch.
\<close>

theorem reveal_marker_removed_counterexample:
  "\<not> has_class (section_page [''reveal''] 0 600) 0 ''active''
   \<and> has_class (evaluations1 [(600, \<lambda>i. 100)] (section_page [''reveal''] 0 600)) 0 ''active''
   \<and> \<not> has_class (evaluations1 [(600, \<lambda>i. 100), (600, \<lambda>i. - 400)]
                    (section_page [''reveal''] 0 600)) 0 ''active''"
  by code_simp

text \<open>
  C8, amended. Once an element carries \<^verbatim>\<open>active\<close>, no later run of the second
  version's evaluator removes it, at any layout; the same holds for the first version's
  evaluator when the element is not a \<^verbatim>\<open>section\<close>.
\<close>

theorem reveal_marker_monotonic:
  assumes "has_class p i ''active''"
  shows "has_class (evaluations2 ls p) i ''active''
       \<and> (localName (elems p ! i) \<noteq> ''section'' \<longrightarrow> has_class (evaluations1 ls p) i ''active'')"
  using assms by (simp add: evaluations1_monotonic evaluations2_monotonic)

theorem reveal_marker_monotonic_witness:
  "has_class (revealOnScroll2 (div_page [''reveal''] 0 600)) 0 ''active''
   \<and> has_class (evaluations2 [(600, \<lambda>i. 2000), (600, \<lambda>i. - 5000)]
                  (revealOnScroll2 (div_page [''reveal''] 0 600))) 0 ''active''
   \<and> has_class (evaluations1 [(600, \<lambda>i. 2000), (600, \<lambda>i. - 5000)]
                  (revealOnScroll2 (div_page [''reveal''] 0 600))) 0 ''active''"
proof -
  let ?p = "revealOnScroll2 (div_page [''reveal''] 0 600)"
  have a: "has_class ?p 0 ''active''" and d: "localName (elems ?p ! 0) \<noteq> ''section''"
    by code_simp+
  show ?thesis
    using a d reveal_marker_monotonic [OF a, of "[(600, \<lambda>i. 2000), (600, \<lambda>i. - 5000)]"]
    by simp
qed

text \<open>
  C9, as stated, fails: on a reveal-tagged \<^verbatim>\<open>section\<close> at top 520 in a viewport 600
  high, the first version's evaluator adds \<^verbatim>\<open>active\<close> (in its section-highlight
  branch) and the second version's does not.
\<close>

theorem versions_differ_on_section_counterexample:
  "\<not> has_class (section_page [''reveal''] 520 600) 0 ''active''
   \<and> has_class (revealOnScroll1 (section_page [''reveal''] 520 600)) 0 ''active''
   \<and> \<not> has_class (revealOnScroll2 (section_page [''reveal''] 520 600)) 0 ''active''"
  by code_simp

text \<open>
  C9, amended. On every element that is not a \<^verbatim>\<open>section\<close>, the two versions'
  evaluators leave the same classes at their return; in particular one adds
  \<^verbatim>\<open>active\<close> to a reveal-tagged element exactly when the other does.
\<close>

theorem reveal_versions_agree:
  assumes "localName (elems p ! i) \<noteq> ''section''"
  shows "has_class (revealOnScroll1 p) i c = has_class (revealOnScroll2 p) i c"
  using assms by (rule has_class_revealOnScroll1_other)

theorem reveal_versions_agree_witness:
  "localName (elems (div_page [''reveal''] 499 600) ! 0) \<noteq> ''section''
   \<and> has_class (revealOnScroll1 (div_page [''reveal''] 499 600)) 0 ''active''
   \<and> has_class (revealOnScroll2 (div_page [''reveal''] 499 600)) 0 ''active''"
proof -
  let ?p = "div_page [''reveal''] 499 600"
  have d: "localName (elems ?p ! 0) \<noteq> ''section''" and a: "has_class (revealOnScroll2 ?p) 0 ''active''"
    by code_simp+
  show ?thesis using d a reveal_versions_agree [OF d, of "''active''"] by simp
qed

subsection \<open>Initialization\<close>

lemma and_then_simps [simp]:
  "and_then (Normal p) f = f p"
  "and_then (Throw e p) f = Throw e p"
  by (simp_all add: and_then_def)

lemma foldl_and_then_Throw [simp]: "foldl and_then (Throw e p) fs = Throw e p"
  by (induction fs) simp_all

lemma run_steps_Nil [simp]: "run_steps [] p = Normal p"
  by (simp add: run_steps_def)

lemma run_steps_Cons [simp]: "run_steps (f # fs) p = and_then (f p) (run_steps fs)"
  by (cases "f p") (simp_all add: run_steps_def)

lemma pure_simp [simp]: "pure f p = Normal (f p)"
  by (simp add: pure_def)

lemma navToggle_kept [simp]:
  "navToggle (update_classes i f p) = navToggle p"
  "navToggle (classList_add i ts p) = navToggle p"
  "navToggle (addEventListener t ev h p) = navToggle p"
  "navToggle (add_class_if_found x c p) = navToggle p"
  "navToggle (observe h i p) = navToggle p"
  by (simp_all add: update_classes_def classList_add_def addEventListener_def
      add_class_if_found_def observe_def split: option.splits)

lemma initRevealAnimations_navToggle [simp]:
  "navToggle (initRevealAnimations p) = navToggle p"
  by (simp add: initRevealAnimations_def Let_def for_each_preserve)

lemma smoothScroll_navToggle [simp]: "navToggle (smoothScroll p) = navToggle p"
  by (simp add: smoothScroll_def foldl_preserve)

lemma lazyLoadImages_navToggle [simp]: "navToggle (lazyLoadImages p) = navToggle p"
  by (simp add: lazyLoadImages_def Let_def foldl_preserve)

text \<open>
  Without a navigation toggle \<^verbatim>\<open>enhanceAccessibility\<close> throws after registering its
  key listener, and the statements of the try block after it do not run.
\<close>

lemma enhanceAccessibility_throws:
  "thrown (enhanceAccessibility p) =
     (if navToggle p = None then Some (TypeError ''navToggle is null'') else None)"
  by (simp add: enhanceAccessibility_def Let_def thrown_def split: option.splits)

lemma try_block2_without_toggle:
  assumes "navToggle p = None"
  shows "try_block2 p =
     Throw (TypeError ''navToggle is null'')
       (addEventListener Document ''keydown'' EscapeClosesMenu
          (lazyLoadImages (smoothScroll (initRevealAnimations p))))"
  using assms by (simp add: try_block2_def enhanceAccessibility_def Let_def)

lemma try_block1_without_toggle:
  assumes "navToggle p = None"
  shows "try_block1 hs p =
     Throw (TypeError ''navToggle is null'')
       (addEventListener Document ''keydown'' EscapeClosesMenu
          (lazyLoadImages (smoothScroll (initRevealAnimations p))))"
  using assms by (simp add: try_block1_def enhanceAccessibility_def Let_def)

lemma try_block2_throws:
  "thrown (try_block2 p) =
     (if navToggle p = None then Some (TypeError ''navToggle is null'') else None)"
proof (cases "navToggle p")
  case None
  then show ?thesis by (simp add: try_block2_without_toggle thrown_def)
next
  case (Some t)
  then show ?thesis
    by (simp add: try_block2_def enhanceAccessibility_def Let_def thrown_def)
qed

lemma try_block1_undefined_global:
  "thrown (try_block1 None p) =
     Some (if navToggle p = None then TypeError ''navToggle is null''
           else ReferenceError ''highlightActiveSection'')"
proof (cases "navToggle p")
  case None
  then show ?thesis by (simp add: try_block1_without_toggle thrown_def)
next
  case (Some t)
  then show ?thesis
    by (simp add: try_block1_def enhanceAccessibility_def Let_def thrown_def call_global_def)
qed

text \<open>
  C6, as stated, fails: set-up runs outside the guarded region. While the document is
  still loading, the top level of the second version has registered its listeners and
  updated the header although \<^verbatim>\<open>initializeApp\<close> has not run; and when the script runs
  before the body is parsed, \<^verbatim>\<open>new LoadingAnimation()\<close> throws at the top level:
  the error is not caught, nothing is logged, and the rest of the set-up is lost.
\<close>

theorem setup_outside_try_counterexample:
  "thrown (script2 ((initial_page example_without_body)\<lparr>readyState := Loading\<rparr>))
     = Some (TypeError ''document.body is null'')
   \<and> console (final_page (script2 ((initial_page example_without_body)\<lparr>readyState := Loading\<rparr>)))
     = []
   \<and> listeners (final_page (script2 ((initial_page example_without_body)\<lparr>readyState := Loading\<rparr>)))
     = [(Document, ''keydown'', KeyboardHandler)]
   \<and> thrown (script2 ((initial_page example_document)\<lparr>readyState := Loading\<rparr>)) = None
   \<and> listeners (final_page (script2 ((initial_page example_document)\<lparr>readyState := Loading\<rparr>)))
     = [(Document, ''keydown'', KeyboardHandler),
        (Window, ''load'', LoaderOnLoad 9),
        (Window, ''error'', GlobalError),
        (Window, ''unhandledrejection'', UnhandledRejection),
        (Document, ''DOMContentLoaded'', InitMobileMenu),
        (Document, ''DOMContentLoaded'', InitMobileMenuClose),
        (Window, ''scroll'', OnScroll),
        (Window, ''scroll'', BackToTopOnScroll),
        (Node 8, ''click'', BackToTopClick),
        (Document, ''DOMContentLoaded'', InitializeApp)]"
  by code_simp

text \<open>
  C6, amended. The set-up steps that \<^verbatim>\<open>initializeApp\<close> runs are inside one try: in
  both versions \<^verbatim>\<open>initializeApp\<close> never throws; when a statement of the try block
  throws, the statements after it are skipped, the page keeps the changes made so far,
  and the error is only logged with \<^verbatim>\<open>console.error\<close>.
\<close>

theorem initializeApp_failure_is_logged:
  "initializeApp1 hs p =
     Normal (case try_block1 hs p of
               Normal q \<Rightarrow> q
             | Throw e q \<Rightarrow> console_error ''Error initializing website:'' e q)
   \<and> initializeApp2 p =
     Normal (case try_block2 p of
               Normal q \<Rightarrow> q
             | Throw e q \<Rightarrow> console_error ''Error initializing website:'' e q)"
  by (simp add: initializeApp1_def initializeApp2_def try_catch_def split: outcome.splits)

text \<open>
  C5. On the example page without a navigation toggle the initialization does not treat
  the missing element as a no-op: \<^verbatim>\<open>enhanceAccessibility\<close> throws a
  \<^verbatim>\<open>TypeError\<close>, \<^verbatim>\<open>initializeApp\<close> logs it, the reveal listener is never
  registered and the card that is in view is never revealed. With the toggle present, and
  also with the back-to-top button missing, the same page initializes without an error.
\<close>

theorem missing_toggle_aborts_setup:
  "getElementById (initial_page example_without_toggle) ''nav-toggle'' = None
   \<and> console example_page_without_toggle =
       [Log ''Page View:'',
        Error ''Error initializing website:'' (TypeError ''navToggle is null'')]
   \<and> (Window, ''scroll'', RevealOnScroll) \<notin> set (listeners example_page_without_toggle)
   \<and> has_class example_page_without_toggle 5 ''reveal''
   \<and> \<not> has_class example_page_without_toggle 5 ''active''
   \<and> console example_page = [Log ''Page View:'']
   \<and> (Window, ''scroll'', RevealOnScroll) \<in> set (listeners example_page)
   \<and> has_class example_page 7 ''active''
   \<and> getElementById (initial_page example_without_button) ''back-to-top'' = None
   \<and> console example_page_without_button = [Log ''Page View:'']
   \<and> (Window, ''scroll'', RevealOnScroll) \<in> set (listeners example_page_without_button)
   \<and> has_class example_page_without_button 7 ''active''
   \<and> elems (backToTop_throttled (example_page_without_button\<lparr>scrollY := 400\<rparr>))
       = elems example_page_without_button"
  by code_simp

end
